theory Spec2Isabelle
  imports Complex_Main
begin

section \<open>JavaScript values\<close>

text \<open>
  The beam analysis engine of \<^verbatim>\<open>src/js/beam-analysis.js\<close> computes with JavaScript numbers.
  A value is a finite number, a non-finite number or \<^verbatim>\<open>undefined\<close>:
  \<^item> \<open>Num r\<close> is the finite number \<open>r\<close>, in exact arithmetic (rounding and overflow of
    IEEE doubles are not modelled);
  \<^item> \<open>NonFinite\<close> stands for \<^verbatim>\<open>NaN\<close>, \<^verbatim>\<open>Infinity\<close> and \<^verbatim>\<open>-Infinity\<close>: what a division by zero
    and arithmetic on \<^verbatim>\<open>undefined\<close> produce. It absorbs every operation of the program
    (the program never divides by a value that can be infinite, and never compares one);
  \<^item> \<open>Undefined\<close> is the value of a variable declared with \<^verbatim>\<open>let\<close> and never assigned,
    and of a property that an object does not have.
\<close>

datatype jsval = Num real | NonFinite | Undefined

fun arith :: "(real \<Rightarrow> real \<Rightarrow> real) \<Rightarrow> jsval \<Rightarrow> jsval \<Rightarrow> jsval" where
  "arith f (Num a) (Num b) = Num (f a b)"
| "arith f _ _ = NonFinite"

fun js_divide :: "jsval \<Rightarrow> jsval \<Rightarrow> jsval" where
  "js_divide (Num a) (Num b) = (if b = 0 then NonFinite else Num (a / b))"
| "js_divide _ _ = NonFinite"

fun js_le :: "jsval \<Rightarrow> jsval \<Rightarrow> bool" where
  "js_le (Num a) (Num b) = (a \<le> b)"
| "js_le _ _ = False"

fun js_lt :: "jsval \<Rightarrow> jsval \<Rightarrow> bool" where
  "js_lt (Num a) (Num b) = (a < b)"
| "js_lt _ _ = False"

text \<open>
  The operators of the source (\<^verbatim>\<open>+ - * / ** <= < >\<close>) are the operators of \<open>jsval\<close>, so
  that a formula of the model reads as the formula of the source.
\<close>

instantiation jsval :: "{zero, one, plus, minus, uminus, times, inverse, ord}"
begin
definition zero_jsval :: jsval where "0 = Num 0"
definition one_jsval :: jsval where "1 = Num 1"
definition plus_jsval :: "jsval \<Rightarrow> jsval \<Rightarrow> jsval" where "a + b = arith (+) a b"
definition minus_jsval :: "jsval \<Rightarrow> jsval \<Rightarrow> jsval" where "a - b = arith (-) a b"
definition uminus_jsval :: "jsval \<Rightarrow> jsval" where "- a = arith (*) (Num (- 1)) a"
definition times_jsval :: "jsval \<Rightarrow> jsval \<Rightarrow> jsval" where "a * b = arith (*) a b"
definition divide_jsval :: "jsval \<Rightarrow> jsval \<Rightarrow> jsval" where "a div b = js_divide a b"
definition inverse_jsval :: "jsval \<Rightarrow> jsval" where "inverse a = js_divide (Num 1) a"
definition less_eq_jsval :: "jsval \<Rightarrow> jsval \<Rightarrow> bool" where "a \<le> b = js_le a b"
definition less_jsval :: "jsval \<Rightarrow> jsval \<Rightarrow> bool" where "a < b = js_lt a b"
instance ..
end

instance jsval :: semigroup_add
proof
  fix a b c :: jsval
  show "a + b + c = a + (b + c)"
    by (cases a; cases b; cases c) (simp_all add: plus_jsval_def)
qed

instance jsval :: numeral ..

instance jsval :: power ..

section \<open>Data types\<close>

text \<open>
  \<^verbatim>\<open>class Material\<close>: a name and an object of numeric properties
  (\<^verbatim>\<open>{EI : 0, GA : 0, ....}\<close>). Reading a property the object does not have gives
  \<^verbatim>\<open>undefined\<close>.
\<close>

record material =
  name :: string
  properties :: "string \<rightharpoonup> real"

definition properties_get :: "material \<Rightarrow> string \<Rightarrow> jsval" where
  "properties_get m k = (case properties m k of None \<Rightarrow> Undefined | Some v \<Rightarrow> Num v)"

text \<open>\<^verbatim>\<open>class Beam\<close>: the two span lengths and the material.\<close>

record beam =
  primarySpan :: real
  secondarySpan :: real
  material :: material

text \<open>The object \<^verbatim>\<open>{M1, R1, R2, R3}\<close> returned by \<^verbatim>\<open>Beam.calculateReactions\<close>.\<close>

record reactions =
  M1 :: jsval
  R1 :: jsval
  R2 :: jsval
  R3 :: jsval

text \<open>
  The object \<^verbatim>\<open>{x, y}\<close> returned by every equation. Its fields are \<open>px\<close> and \<open>py\<close> here,
  since \<open>x\<close> and \<open>y\<close> are variables of the formulas.
\<close>

record point =
  px :: real
  py :: jsval

text \<open>
  \<^verbatim>\<open>floatVal\<close> is called by the engine and defined outside it: it reads a number from a
  named input of the page. The state of the page at one moment is the function from
  input names to the values \<^verbatim>\<open>floatVal\<close> returns at that moment.
\<close>

type_synonym ambient = "string \<Rightarrow> jsval"

text \<open>
  An equation is a closure \<^verbatim>\<open>function(x)\<close>. Its result can depend on the state of the
  page at the moment of the call, which is its first argument here.
\<close>

type_synonym equation = "ambient \<Rightarrow> real \<Rightarrow> point"

section \<open>Reactions of the two-span beam\<close>

definition calculateReactions :: "jsval \<Rightarrow> jsval \<Rightarrow> jsval \<Rightarrow> reactions" where
  "calculateReactions w L1 L2 =
     (let m1 = - (w * L1 ^ 3 + w * L2 ^ 3) / (8 * (L1 + L2));
          r1 = m1 / L1 + (w * L1) / 2;
          r3 = m1 / L2 + (w * L2) / 2;
          r2 = w * (L1 + L2) - r1 - r3
      in \<lparr>M1 = m1, R1 = r1, R2 = r2, R3 = r3\<rparr>)"

section \<open>The simply supported analyzer\<close>

text \<open>First variant of the file (lines 124 to 168).\<close>

definition simplySupported_getDeflectionEquation :: "beam \<Rightarrow> real \<Rightarrow> real \<Rightarrow> point" where
  "simplySupported_getDeflectionEquation b load x =
     (let L = Num (primarySpan b);
          EI = properties_get (material b) ''EI'' / 100000000;
          w = Num load;
          delta =
            (- ((w * Num x) / (24 * EI))) *
            (L ^ 3 - 2 * L * Num x ^ 2 + Num x ^ 3) *
            1000
      in \<lparr>px = x, py = delta\<rparr>)"

definition simplySupported_getBendingMomentEquation :: "beam \<Rightarrow> real \<Rightarrow> real \<Rightarrow> point" where
  "simplySupported_getBendingMomentEquation b load x =
     (let L = Num (primarySpan b);
          w = Num load;
          M = (w * Num x * (L - Num x)) / 2
      in \<lparr>px = x, py = M\<rparr>)"

definition simplySupported_getShearForceEquation :: "beam \<Rightarrow> real \<Rightarrow> real \<Rightarrow> point" where
  "simplySupported_getShearForceEquation b load x =
     (let L = Num (primarySpan b);
          w = Num load;
          V = w * (L / 2 - Num x)
      in \<lparr>px = x, py = V\<rparr>)"

text \<open>
  Second variant of the file (lines 417 to 454). \<^verbatim>\<open>getDeflectionEquation\<close> reads
  \<^verbatim>\<open>floatVal("j2")\<close> once, when the closure is created.
\<close>

definition simplySupported_getDeflectionEquation_v2 :: "ambient \<Rightarrow> beam \<Rightarrow> real \<Rightarrow> real \<Rightarrow> point" where
  "simplySupported_getDeflectionEquation_v2 floatVal b load =
     (let j2 = floatVal ''j2''
      in (\<lambda>x.
        let L = Num (primarySpan b);
            EI = properties_get (material b) ''EI'';
            w = Num load;
            delta = (w * Num x * Num x * (3 * L - Num x)) / (6 * EI)
        in \<lparr>px = x, py = delta * 1000 * j2\<rparr>))"

definition simplySupported_getBendingMomentEquation_v2 :: "beam \<Rightarrow> real \<Rightarrow> real \<Rightarrow> point" where
  "simplySupported_getBendingMomentEquation_v2 b load x =
     (let L = Num (primarySpan b);
          w = Num load;
          M = (w * Num x * (L - Num x)) / 2
      in \<lparr>px = x, py = M\<rparr>)"


section \<open>The two-span analyzer\<close>

subsection \<open>Deflection (first variant, lines 184 to 217)\<close>

text \<open>
  The reactions the deflection closure computes for itself (\<^verbatim>\<open>const R1\<close> and
  \<^verbatim>\<open>const R2\<close>, lines 192 and 193); it does not call \<^verbatim>\<open>calculateReactions\<close>.
\<close>

definition deflection_R1 :: "jsval \<Rightarrow> jsval \<Rightarrow> jsval \<Rightarrow> jsval" where
  "deflection_R1 w L1 L2 = (w * L1 * (3 * L2 + 2 * L1)) / (2 * (L1 + L2))"

definition deflection_R2 :: "jsval \<Rightarrow> jsval \<Rightarrow> jsval \<Rightarrow> jsval \<Rightarrow> jsval" where
  "deflection_R2 w L1 L2 r1 = w * (L1 + L2) - r1"

text \<open>
  The two arms of \<^verbatim>\<open>if (L1 === L2) { ... } else { ... }\<close>, each the value of \<^verbatim>\<open>delta\<close>
  after the arm. \<^verbatim>\<open>delta\<close> is declared without a value and no arm assigns it when
  \<^verbatim>\<open>x > L1 + L2\<close>.
\<close>

definition deflection_equal_branch ::
    "jsval \<Rightarrow> jsval \<Rightarrow> jsval \<Rightarrow> jsval \<Rightarrow> jsval \<Rightarrow> jsval \<Rightarrow> jsval \<Rightarrow> jsval" where
  "deflection_equal_branch w EI r1 r2 L1 L2 x =
     (if x \<le> L1 then
        ((w * x ^ 2) / (24 * EI)) * (6 * L1 ^ 2 - 4 * L1 * x + x ^ 2) - (r1 * x ^ 3) / (6 * EI)
      else if x \<le> L1 + L2 then
        (let x2 = x - L1
         in (w * L1 ^ 3) / (6 * EI) - (r1 * L1 ^ 2) / (2 * EI) + (r2 * x2 ^ 3) / (6 * EI)
              - (w * x2 ^ 4) / (24 * EI))
      else Undefined)"

definition deflection_general_branch ::
    "jsval \<Rightarrow> jsval \<Rightarrow> jsval \<Rightarrow> jsval \<Rightarrow> jsval \<Rightarrow> jsval \<Rightarrow> jsval \<Rightarrow> jsval" where
  "deflection_general_branch w EI r1 r2 L1 L2 x =
     (if x \<le> L1 then
        ((w * x ^ 2) / (24 * EI)) * (6 * L1 ^ 2 - 4 * L1 * x + x ^ 2) - (r1 * x ^ 3) / (6 * EI)
      else if x \<le> L1 + L2 then
        (let x2 = x - L1
         in (w * L1 ^ 3) / (6 * EI) - (r1 * L1 ^ 2) / (2 * EI) + (r2 * x2 ^ 3) / (6 * EI)
              - (w * x2 ^ 4) / (24 * EI))
      else Undefined)"

text \<open>
  The closure reads \<^verbatim>\<open>floatVal("j2")\<close> in its body: at every call, from the state of
  the page at that call.
\<close>

definition twoSpanUnequal_getDeflectionEquation :: "beam \<Rightarrow> real \<Rightarrow> ambient \<Rightarrow> real \<Rightarrow> point" where
  "twoSpanUnequal_getDeflectionEquation b load floatVal x =
     (let j2 = floatVal ''j2'';
          L1 = Num (primarySpan b);
          L2 = Num (secondarySpan b);
          w = Num load;
          EI = properties_get (material b) ''EI'' / 10000000;
          r1 = deflection_R1 w L1 L2;
          r2 = deflection_R2 w L1 L2 r1;
          delta =
            (if L1 = L2 then deflection_equal_branch w EI r1 r2 L1 L2 (Num x)
             else deflection_general_branch w EI r1 r2 L1 L2 (Num x))
      in \<lparr>px = x, py = delta * 1000 * j2\<rparr>)"

subsection \<open>Bending moment (first variant, lines 222 to 266)\<close>

text \<open>The block under \<^verbatim>\<open>if (L1 === L2)\<close> and the code after it, each as the \<^verbatim>\<open>y\<close> returned.\<close>

definition moment_equal_branch ::
    "jsval \<Rightarrow> jsval \<Rightarrow> jsval \<Rightarrow> jsval \<Rightarrow> jsval \<Rightarrow> jsval \<Rightarrow> jsval" where
  "moment_equal_branch w r1 r2 L1 L2 x =
     (if x > L1 + L2 then 0
      else if x \<le> L1 then r1 * x - (w * x ^ 2) / 2
      else r1 * x + r2 * (x - L1) - (w * x ^ 2) / 2)"

definition moment_general_branch ::
    "jsval \<Rightarrow> jsval \<Rightarrow> jsval \<Rightarrow> jsval \<Rightarrow> jsval \<Rightarrow> jsval \<Rightarrow> jsval" where
  "moment_general_branch w r1 r2 L1 L2 x =
     (if x > L1 + L2 then 0
      else if x \<le> L1 then r1 * x - (w * x ^ 2) / 2
      else r1 * x + r2 * (x - L1) - (w * x ^ 2) / 2)"

definition twoSpanUnequal_getBendingMomentEquation :: "beam \<Rightarrow> real \<Rightarrow> real \<Rightarrow> point" where
  "twoSpanUnequal_getBendingMomentEquation b load x =
     (let L1 = Num (primarySpan b);
          L2 = Num (secondarySpan b);
          w = Num load;
          reactions = calculateReactions (Num load) L1 L2;
          r1 = R1 reactions;
          r2 = R2 reactions
      in if L1 = L2 then \<lparr>px = x, py = moment_equal_branch w r1 r2 L1 L2 (Num x)\<rparr>
         else \<lparr>px = x, py = moment_general_branch w r1 r2 L1 L2 (Num x)\<rparr>)"

subsection \<open>Shear force (first variant, lines 268 to 306)\<close>

text \<open>
  The block under \<^verbatim>\<open>if (L1 === L2)\<close> and the chain of \<^verbatim>\<open>if / else if\<close> after it. The chain
  has no final \<^verbatim>\<open>else\<close>: when no test holds, \<^verbatim>\<open>V\<close> keeps the value \<^verbatim>\<open>undefined\<close> it was
  declared with.
\<close>

definition shear_equal_branch ::
    "jsval \<Rightarrow> jsval \<Rightarrow> jsval \<Rightarrow> jsval \<Rightarrow> jsval \<Rightarrow> jsval \<Rightarrow> jsval" where
  "shear_equal_branch w r1 r2 L1 L2 x =
     (if x > L1 + L2 then 0
      else if x \<le> L1 then r1 - (w * x)
      else r1 + r2 - (w * x))"

definition shear_general_branch ::
    "jsval \<Rightarrow> jsval \<Rightarrow> jsval \<Rightarrow> jsval \<Rightarrow> jsval \<Rightarrow> jsval \<Rightarrow> jsval" where
  "shear_general_branch w r1 r2 L1 L2 x =
     (if x = 0 then r1
      else if x < L1 then r1 - (w * x)
      else if x = L1 then r1 - w * L1
      else if x < L1 + L2 then r1 + r2 - (w * x)
      else if x = L1 + L2 then r1 + r2 - (w * (L1 + L2))
      else Undefined)"

definition twoSpanUnequal_getShearForceEquation :: "beam \<Rightarrow> real \<Rightarrow> real \<Rightarrow> point" where
  "twoSpanUnequal_getShearForceEquation b load x =
     (let L1 = Num (primarySpan b);
          L2 = Num (secondarySpan b);
          w = Num load;
          reactions = calculateReactions w L1 L2;
          r1 = R1 reactions;
          r2 = R2 reactions
      in if L1 = L2 then \<lparr>px = x, py = shear_equal_branch w r1 r2 L1 L2 (Num x)\<rparr>
         else \<lparr>px = x, py = shear_general_branch w r1 r2 L1 L2 (Num x)\<rparr>)"

subsection \<open>The two-span analyzer with the equal-span block removed\<close>

text \<open>
  The design note on the redundant equal-span branch asks for one code path: the code
  written for \<^verbatim>\<open>L1 != L2\<close>, taken for every beam. These three definitions are that
  collapsed analyzer, to be compared with the analyzer of the source.
\<close>

definition collapsed_getDeflectionEquation :: "beam \<Rightarrow> real \<Rightarrow> ambient \<Rightarrow> real \<Rightarrow> point" where
  "collapsed_getDeflectionEquation b load floatVal x =
     (let j2 = floatVal ''j2'';
          L1 = Num (primarySpan b);
          L2 = Num (secondarySpan b);
          w = Num load;
          EI = properties_get (material b) ''EI'' / 10000000;
          r1 = deflection_R1 w L1 L2;
          r2 = deflection_R2 w L1 L2 r1;
          delta = deflection_general_branch w EI r1 r2 L1 L2 (Num x)
      in \<lparr>px = x, py = delta * 1000 * j2\<rparr>)"

definition collapsed_getBendingMomentEquation :: "beam \<Rightarrow> real \<Rightarrow> real \<Rightarrow> point" where
  "collapsed_getBendingMomentEquation b load x =
     (let L1 = Num (primarySpan b);
          L2 = Num (secondarySpan b);
          w = Num load;
          reactions = calculateReactions (Num load) L1 L2;
          r1 = R1 reactions;
          r2 = R2 reactions
      in \<lparr>px = x, py = moment_general_branch w r1 r2 L1 L2 (Num x)\<rparr>)"

definition collapsed_getShearForceEquation :: "beam \<Rightarrow> real \<Rightarrow> real \<Rightarrow> point" where
  "collapsed_getShearForceEquation b load x =
     (let L1 = Num (primarySpan b);
          L2 = Num (secondarySpan b);
          w = Num load;
          reactions = calculateReactions w L1 L2;
          r1 = R1 reactions;
          r2 = R2 reactions
      in \<lparr>px = x, py = shear_general_branch w r1 r2 L1 L2 (Num x)\<rparr>)"

subsection \<open>Second variant of the file (lines 463 to 536)\<close>


definition twoSpanUnequal_getBendingMomentEquation_v2 :: "beam \<Rightarrow> real \<Rightarrow> real \<Rightarrow> point" where
  "twoSpanUnequal_getBendingMomentEquation_v2 b load x =
     (let L1 = Num (primarySpan b);
          L2 = Num (secondarySpan b);
          w = Num load;
          r1 = (w * L2 * (3 * L1 + L2)) / (8 * (L1 + L2));
          M =
            (if Num x \<le> L1 then r1 * Num x - (w * Num x ^ 2) / 2
             else if Num x \<le> L1 + L2 then
               (let xRel = Num x - L1 in r1 * L1 - (w * xRel ^ 2) / 2)
             else 0)
      in \<lparr>px = x, py = M\<rparr>)"

definition twoSpanUnequal_getShearForceEquation_v2 :: "beam \<Rightarrow> real \<Rightarrow> real \<Rightarrow> point" where
  "twoSpanUnequal_getShearForceEquation_v2 b load x =
     (let L1 = Num (primarySpan b);
          L2 = Num (secondarySpan b);
          w = Num load;
          r1 = (w * L2 * (3 * L1 + L2)) / (8 * (L1 + L2));
          V =
            (if Num x \<le> L1 then r1 - w * Num x
             else if Num x \<le> L1 + L2 then
               (let xRel = Num x - L1 in r1 - w * xRel)
             else 0)
      in \<lparr>px = x, py = V\<rparr>)"

section \<open>The engine\<close>

text \<open>
  \<^verbatim>\<open>this.analyzer\<close> is an object literal with the two keys \<^verbatim>\<open>'simply-supported'\<close> and
  \<^verbatim>\<open>'two-span-unequal'\<close>. \<^verbatim>\<open>this.analyzer[condition]\<close> is a property read: it finds the
  object's own keys first and then the properties every object literal inherits from
  \<^verbatim>\<open>Object.prototype\<close>, which are functions (and, for \<^verbatim>\<open>__proto__\<close>, the prototype object):
  truthy values with no method named \<^verbatim>\<open>getDeflectionEquation\<close>,
  \<^verbatim>\<open>getBendingMomentEquation\<close> or \<^verbatim>\<open>getShearForceEquation\<close>. Any other key reads as
  \<^verbatim>\<open>undefined\<close>.
\<close>

datatype analyzer = simplySupported | twoSpanUnequal

datatype lookup = Own analyzer | Inherited | Absent

definition objectPrototype :: "string list" where
  "objectPrototype =
     [''constructor'', ''hasOwnProperty'', ''isPrototypeOf'', ''propertyIsEnumerable'',
      ''toLocaleString'', ''toString'', ''valueOf'', ''__proto__'',
      ''__defineGetter__'', ''__defineSetter__'', ''__lookupGetter__'', ''__lookupSetter__'']"

definition analyzer_get :: "string \<Rightarrow> lookup" where
  "analyzer_get condition =
     (if condition = ''simply-supported'' then Own simplySupported
      else if condition = ''two-span-unequal'' then Own twoSpanUnequal
      else if condition \<in> set objectPrototype then Inherited
      else Absent)"

text \<open>
  \<open>Error msg\<close> is \<^verbatim>\<open>throw new Error(msg)\<close>; \<open>TypeError\<close> is what calling a method that the
  value does not have throws (\<^verbatim>\<open>analyzer.getDeflectionEquation is not a function\<close>).
\<close>

datatype error = Error string | TypeError

record analysis_result =
  beam :: beam
  load :: real
  equation :: equation

text \<open>
  The method call \<^verbatim>\<open>analyzer.getDeflectionEquation(beam, load)\<close> on each analyzer of the
  first variant, and likewise for the two other methods.
\<close>

fun analyzer_getDeflectionEquation :: "analyzer \<Rightarrow> beam \<Rightarrow> real \<Rightarrow> equation" where
  "analyzer_getDeflectionEquation simplySupported b w =
     (\<lambda>floatVal. simplySupported_getDeflectionEquation b w)"
| "analyzer_getDeflectionEquation twoSpanUnequal b w =
     twoSpanUnequal_getDeflectionEquation b w"

fun analyzer_getBendingMomentEquation :: "analyzer \<Rightarrow> beam \<Rightarrow> real \<Rightarrow> equation" where
  "analyzer_getBendingMomentEquation simplySupported b w =
     (\<lambda>floatVal. simplySupported_getBendingMomentEquation b w)"
| "analyzer_getBendingMomentEquation twoSpanUnequal b w =
     (\<lambda>floatVal. twoSpanUnequal_getBendingMomentEquation b w)"

fun analyzer_getShearForceEquation :: "analyzer \<Rightarrow> beam \<Rightarrow> real \<Rightarrow> equation" where
  "analyzer_getShearForceEquation simplySupported b w =
     (\<lambda>floatVal. simplySupported_getShearForceEquation b w)"
| "analyzer_getShearForceEquation twoSpanUnequal b w =
     (\<lambda>floatVal. twoSpanUnequal_getShearForceEquation b w)"

definition getDeflection :: "beam \<Rightarrow> real \<Rightarrow> string \<Rightarrow> error + analysis_result" where
  "getDeflection b w condition =
     (case analyzer_get condition of
        Own analyzer \<Rightarrow>
          Inr \<lparr>beam = b, load = w, equation = analyzer_getDeflectionEquation analyzer b w\<rparr>
      | Inherited \<Rightarrow> Inl TypeError
      | Absent \<Rightarrow> Inl (Error ''Invalid condition''))"

definition getBendingMoment :: "beam \<Rightarrow> real \<Rightarrow> string \<Rightarrow> error + analysis_result" where
  "getBendingMoment b w condition =
     (case analyzer_get condition of
        Own analyzer \<Rightarrow>
          Inr \<lparr>beam = b, load = w, equation = analyzer_getBendingMomentEquation analyzer b w\<rparr>
      | Inherited \<Rightarrow> Inl TypeError
      | Absent \<Rightarrow> Inl (Error ''Invalid condition''))"

definition getShearForce :: "beam \<Rightarrow> real \<Rightarrow> string \<Rightarrow> error + analysis_result" where
  "getShearForce b w condition =
     (case analyzer_get condition of
        Own analyzer \<Rightarrow>
          Inr \<lparr>beam = b, load = w, equation = analyzer_getShearForceEquation analyzer b w\<rparr>
      | Inherited \<Rightarrow> Inl TypeError
      | Absent \<Rightarrow> Inl (Error ''Invalid condition''))"







section \<open>Concrete scenarios\<close>

text \<open>
  The two scenarios of the testable properties: a simply supported span of 4 m and a
  two-span beam of 3 m and 5 m, both under 10 kN/m. The flexural rigidity is a round
  value; the scenarios do not fix one.
\<close>

definition scenario_material :: material where
  "scenario_material = \<lparr>name = ''steel'', properties = [''EI'' \<mapsto> 100000000]\<rparr>"

definition scenario_simple :: beam where
  "scenario_simple = \<lparr>primarySpan = 4, secondarySpan = 0, material = scenario_material\<rparr>"

definition scenario_two_span :: beam where
  "scenario_two_span = \<lparr>primarySpan = 3, secondarySpan = 5, material = scenario_material\<rparr>"

definition scenario_equal_spans :: beam where
  "scenario_equal_spans = \<lparr>primarySpan = 4, secondarySpan = 4, material = scenario_material\<rparr>"


section \<open>Arithmetic on finite numbers\<close>

lemma Num_plus [simp]: "Num a + Num b = Num (a + b)"
  by (simp add: plus_jsval_def)

lemma Num_minus [simp]: "Num a - Num b = Num (a - b)"
  by (simp add: minus_jsval_def)

lemma Num_uminus [simp]: "- Num a = Num (- a)"
  by (simp add: uminus_jsval_def)

lemma Num_times [simp]: "Num a * Num b = Num (a * b)"
  by (simp add: times_jsval_def)

lemma Num_divide [simp]: "Num a / Num b = (if b = 0 then NonFinite else Num (a / b))"
  by (simp add: divide_jsval_def)

lemma Num_zero [simp]: "(0::jsval) = Num 0"
  by (simp add: zero_jsval_def)

lemma Num_one [simp]: "(1::jsval) = Num 1"
  by (simp add: one_jsval_def)

lemma Num_numeral [simp]: "(numeral k :: jsval) = Num (numeral k)"
proof (induction k)
  case One
  show ?case by (simp only: numeral_One one_jsval_def)
next
  case (Bit0 k)
  have "(numeral (num.Bit0 k) :: jsval) = numeral k + numeral k"
    by (rule numeral_Bit0)
  also have "\<dots> = Num (numeral k + numeral k)"
    by (simp only: Bit0.IH Num_plus)
  also have "numeral k + numeral k = (numeral (num.Bit0 k) :: real)"
    by (rule numeral_Bit0 [symmetric])
  finally show ?case .
next
  case (Bit1 k)
  have "(numeral (num.Bit1 k) :: jsval) = numeral k + numeral k + 1"
    by (rule numeral_Bit1)
  also have "\<dots> = Num (numeral k + numeral k + 1)"
    by (simp only: Bit1.IH Num_plus one_jsval_def)
  also have "numeral k + numeral k + 1 = (numeral (num.Bit1 k) :: real)"
    by (rule numeral_Bit1 [symmetric])
  finally show ?case .
qed

lemma Num_power [simp]: "Num a ^ n = Num (a ^ n)"
  by (induction n) simp_all

lemma NonFinite_absorbs [simp]:
  "NonFinite + a = NonFinite" "a + NonFinite = NonFinite"
  "NonFinite - a = NonFinite" "a - NonFinite = NonFinite"
  "NonFinite * a = NonFinite" "a * NonFinite = NonFinite"
  "NonFinite / a = NonFinite" "a / NonFinite = NonFinite"
  "- NonFinite = NonFinite"
  by (cases a; simp add: plus_jsval_def minus_jsval_def times_jsval_def divide_jsval_def
      uminus_jsval_def)+

lemma Undefined_is_NaN [simp]:
  "Undefined + a = NonFinite" "a + Undefined = NonFinite"
  "Undefined - a = NonFinite" "a - Undefined = NonFinite"
  "Undefined * a = NonFinite" "a * Undefined = NonFinite"
  "Undefined / a = NonFinite" "a / Undefined = NonFinite"
  "- Undefined = NonFinite"
  by (cases a; simp add: plus_jsval_def minus_jsval_def times_jsval_def divide_jsval_def
      uminus_jsval_def)+

lemma Num_le [simp]: "(Num a \<le> Num b) = (a \<le> b)"
  by (simp add: less_eq_jsval_def)

lemma Num_less [simp]: "(Num a < Num b) = (a < b)"
  by (simp add: less_jsval_def)

section \<open>Shared facts about the two-span analyzer\<close>

lemma calculateReactions_finite:
  assumes "0 < L1" and "0 < L2"
  shows "\<exists>m r1 r2 r3. calculateReactions (Num w) (Num L1) (Num L2)
           = \<lparr>M1 = Num m, R1 = Num r1, R2 = Num r2, R3 = Num r3\<rparr>"
  using assms by (simp add: calculateReactions_def Let_def)

lemma calculateReactions_equal_spans:
  assumes "0 < L"
  shows "calculateReactions (Num w) (Num L) (Num L)
       = \<lparr>M1 = Num (- (w * L\<^sup>2 / 8)), R1 = Num (3 * w * L / 8), R2 = Num (5 * w * L / 4),
          R3 = Num (3 * w * L / 8)\<rparr>"
  using assms
  by (simp add: calculateReactions_def Let_def power2_eq_square power3_eq_cube field_simps)

lemma deflection_branches_same: "deflection_equal_branch = deflection_general_branch"
  by (intro ext) (simp add: deflection_equal_branch_def deflection_general_branch_def)

lemma moment_branches_same: "moment_equal_branch = moment_general_branch"
  by (intro ext) (simp add: moment_equal_branch_def moment_general_branch_def)

lemma twoSpan_moment_unfold:
  "twoSpanUnequal_getBendingMomentEquation b w x =
     \<lparr>px = x,
      py = moment_general_branch (Num w)
             (R1 (calculateReactions (Num w) (Num (primarySpan b)) (Num (secondarySpan b))))
             (R2 (calculateReactions (Num w) (Num (primarySpan b)) (Num (secondarySpan b))))
             (Num (primarySpan b)) (Num (secondarySpan b)) (Num x)\<rparr>"
  by (simp add: twoSpanUnequal_getBendingMomentEquation_def moment_branches_same Let_def)

lemma twoSpan_shear_unfold:
  "twoSpanUnequal_getShearForceEquation b w x =
     \<lparr>px = x,
      py = (if primarySpan b = secondarySpan b then shear_equal_branch else shear_general_branch)
             (Num w)
             (R1 (calculateReactions (Num w) (Num (primarySpan b)) (Num (secondarySpan b))))
             (R2 (calculateReactions (Num w) (Num (primarySpan b)) (Num (secondarySpan b))))
             (Num (primarySpan b)) (Num (secondarySpan b)) (Num x)\<rparr>"
  by (simp add: twoSpanUnequal_getShearForceEquation_def Let_def)

section \<open>Vertical equilibrium of the reactions\<close>



section \<open>Unsupported conditions\<close>

text \<open>
  A condition that is neither a key of \<^verbatim>\<open>this.analyzer\<close> nor a property inherited from
  \<^verbatim>\<open>Object.prototype\<close> reaches the \<^verbatim>\<open>else\<close> arm: \<^verbatim>\<open>throw new Error('Invalid condition')\<close>.
  No condition other than the two registered names returns a result.
\<close>

lemma analyzer_get_absent:
  assumes "condition \<noteq> ''simply-supported''" and "condition \<noteq> ''two-span-unequal''"
    and "condition \<notin> set objectPrototype"
  shows "analyzer_get condition = Absent"
  using assms by (simp add: analyzer_get_def)

lemma invalid_condition:
  assumes "condition \<noteq> ''simply-supported''" and "condition \<noteq> ''two-span-unequal''"
    and "condition \<notin> set objectPrototype"
  shows "getDeflection b w condition = Inl (Error ''Invalid condition'')"
    and "getBendingMoment b w condition = Inl (Error ''Invalid condition'')"
    and "getShearForce b w condition = Inl (Error ''Invalid condition'')"
  by (simp_all add: getDeflection_def getBendingMoment_def getShearForce_def
      analyzer_get_absent [OF assms])

lemma nonexistent_condition:
  "getDeflection b w ''nonexistent'' = Inl (Error ''Invalid condition'')"
  "getBendingMoment b w ''nonexistent'' = Inl (Error ''Invalid condition'')"
  "getShearForce b w ''nonexistent'' = Inl (Error ''Invalid condition'')"
  by (simp_all add: getDeflection_def getBendingMoment_def getShearForce_def analyzer_get_def
      objectPrototype_def)

lemma unregistered_condition_never_returns:
  assumes "condition \<noteq> ''simply-supported''" and "condition \<noteq> ''two-span-unequal''"
  shows "isl (getDeflection b w condition)"
    and "isl (getBendingMoment b w condition)"
    and "isl (getShearForce b w condition)"
  using assms
  by (simp_all add: getDeflection_def getBendingMoment_def getShearForce_def analyzer_get_def)

text \<open>
  Claim C2. Each of \<^verbatim>\<open>getDeflection\<close>, \<^verbatim>\<open>getBendingMoment\<close> and \<^verbatim>\<open>getShearForce\<close>, called
  with a condition that has no registered analyzer, is to raise the error of an unsupported
  condition. At the condition \<^verbatim>\<open>'constructor'\<close> the engine does not: the property read finds
  the inherited \<^verbatim>\<open>Object.prototype.constructor\<close>, the test \<^verbatim>\<open>if (analyzer)\<close> passes, and the
  method call on it throws a \<^verbatim>\<open>TypeError\<close> instead of \<^verbatim>\<open>Error('Invalid condition')\<close>.
\<close>

theorem inherited_key_throws_TypeError:
  "getDeflection scenario_simple 10 ''constructor'' = Inl TypeError
   \<and> getBendingMoment scenario_simple 10 ''constructor'' = Inl TypeError
   \<and> getShearForce scenario_simple 10 ''constructor'' = Inl TypeError
   \<and> TypeError \<noteq> Error ''Invalid condition''"
  by (simp add: getDeflection_def getBendingMoment_def getShearForce_def analyzer_get_def
      objectPrototype_def)

section \<open>The junction of the two spans\<close>



section \<open>The moment diagram of the simple span\<close>


lemma simplySupported_moment_v2_same:
  "simplySupported_getBendingMomentEquation_v2 = simplySupported_getBendingMomentEquation"
  by (intro ext) (simp add: simplySupported_getBendingMomentEquation_v2_def
      simplySupported_getBendingMomentEquation_def)




section \<open>Deflection of the simple span at the supports\<close>

lemma simplySupported_deflection_v2_at_supports:
  assumes "primarySpan b = L" and "properties (material b) ''EI'' = Some EI" and "EI \<noteq> 0"
    and "created ''j2'' = Num j2"
  shows "py (simplySupported_getDeflectionEquation_v2 created b w 0) = Num 0"
    and "py (simplySupported_getDeflectionEquation_v2 created b w L)
           = Num (w * L ^ 3 / (3 * EI) * 1000 * j2)"
  using assms
  by (simp_all add: simplySupported_getDeflectionEquation_v2_def properties_get_def Let_def
      power3_eq_cube field_simps)




section \<open>Beyond the total length\<close>

text \<open>
  For \<open>x > L1 + L2\<close> the bending moment equation returns 0. The shear force equation
  returns 0 in its equal-span block; in the chain written for \<open>L1 \<noteq> L2\<close> no test holds
  and \<open>y\<close> is \<^verbatim>\<open>undefined\<close>.
\<close>

lemma twoSpan_beyond_total_length:
  assumes "0 < L1" and "0 < L2" and "primarySpan b = L1" and "secondarySpan b = L2"
    and "L1 + L2 < x"
  shows "py (twoSpanUnequal_getBendingMomentEquation b w x) = Num 0"
    and "py (twoSpanUnequal_getShearForceEquation b w x) = (if L1 = L2 then Num 0 else Undefined)"
proof -
  obtain m r1 r2 r3 where c: "calculateReactions (Num w) (Num L1) (Num L2)
      = \<lparr>M1 = Num m, R1 = Num r1, R2 = Num r2, R3 = Num r3\<rparr>"
    using calculateReactions_finite [OF assms(1,2)] by blast
  show "py (twoSpanUnequal_getBendingMomentEquation b w x) = Num 0"
    unfolding twoSpan_moment_unfold assms(3,4) c
    using assms(5) by (simp add: moment_general_branch_def)
  show "py (twoSpanUnequal_getShearForceEquation b w x) = (if L1 = L2 then Num 0 else Undefined)"
    unfolding twoSpan_shear_unfold assms(3,4) c
    using assms(1,2,5) by (simp add: shear_equal_branch_def shear_general_branch_def)
qed

lemma twoSpan_v2_beyond_total_length:
  assumes "0 < L1" and "0 < L2" and "primarySpan b = L1" and "secondarySpan b = L2"
    and "L1 + L2 < x"
  shows "py (twoSpanUnequal_getBendingMomentEquation_v2 b w x) = Num 0"
    and "py (twoSpanUnequal_getShearForceEquation_v2 b w x) = Num 0"
  using assms
  by (simp_all add: twoSpanUnequal_getBendingMomentEquation_v2_def
      twoSpanUnequal_getShearForceEquation_v2_def Let_def)

text \<open>
  Claim C6. For every load and spans \<open>L1 > 0\<close>, \<open>L2 > 0\<close> and every \<open>x > L1 + L2\<close>, the
  two-span bending moment and shear force equations are to return \<open>y = 0\<close>. On the beam of
  3 m and 5 m at \<open>x = 9\<close> the shear force equation returns \<^verbatim>\<open>undefined\<close>; the bending moment
  equation returns 0.
\<close>

theorem shear_beyond_total_length_undefined:
  "py (twoSpanUnequal_getShearForceEquation scenario_two_span 10 9) = Undefined
   \<and> Undefined \<noteq> Num 0
   \<and> py (twoSpanUnequal_getBendingMomentEquation scenario_two_span 10 9) = Num 0"
  by (simp add: twoSpan_shear_unfold twoSpan_moment_unfold scenario_two_span_def
      calculateReactions_def shear_general_branch_def moment_general_branch_def Let_def)

section \<open>The equal-span block is redundant\<close>

lemma shear_branches_same:
  assumes "0 < L" and "0 \<le> x" and "x \<le> L + L"
  shows "shear_equal_branch (Num w) (Num r1) (Num r2) (Num L) (Num L) (Num x)
       = shear_general_branch (Num w) (Num r1) (Num r2) (Num L) (Num L) (Num x)"
  using assms by (simp add: shear_equal_branch_def shear_general_branch_def)

text \<open>
  Claim C7. For every beam with \<open>secondarySpan = primarySpan > 0\<close>, every load and every
  \<open>x\<close> in \<open>[0, L1 + L2]\<close>, the deflection, bending moment and shear force equations of the
  two-span analyzer, which take the equal-span block on such a beam, return what the
  code for the general case returns on the same inputs.
\<close>

theorem equal_span_branch_redundant:
  assumes "0 < L" and "primarySpan b = L" and "secondarySpan b = L"
    and "0 \<le> x" and "x \<le> L + L"
  shows "twoSpanUnequal_getDeflectionEquation b w floatVal x
           = collapsed_getDeflectionEquation b w floatVal x
       \<and> twoSpanUnequal_getBendingMomentEquation b w x = collapsed_getBendingMomentEquation b w x
       \<and> twoSpanUnequal_getShearForceEquation b w x = collapsed_getShearForceEquation b w x"
proof (intro conjI)
  show "twoSpanUnequal_getDeflectionEquation b w floatVal x
           = collapsed_getDeflectionEquation b w floatVal x"
    by (simp add: twoSpanUnequal_getDeflectionEquation_def collapsed_getDeflectionEquation_def
        deflection_branches_same Let_def)
  show "twoSpanUnequal_getBendingMomentEquation b w x = collapsed_getBendingMomentEquation b w x"
    by (simp add: twoSpan_moment_unfold collapsed_getBendingMomentEquation_def Let_def)
  obtain m r1 r2 r3 where c: "calculateReactions (Num w) (Num L) (Num L)
      = \<lparr>M1 = Num m, R1 = Num r1, R2 = Num r2, R3 = Num r3\<rparr>"
    using calculateReactions_finite [OF assms(1) assms(1)] by blast
  show "twoSpanUnequal_getShearForceEquation b w x = collapsed_getShearForceEquation b w x"
    unfolding twoSpan_shear_unfold collapsed_getShearForceEquation_def Let_def assms(2,3) c
    using shear_branches_same [OF assms(1,4,5)] by simp
qed

theorem equal_span_branch_redundant_witness:
  "(0::real) < 4 \<and> (0::real) \<le> 5 \<and> (5::real) \<le> 4 + 4
     \<and> twoSpanUnequal_getDeflectionEquation scenario_equal_spans 10 (\<lambda>k. Num 1) 5
         = collapsed_getDeflectionEquation scenario_equal_spans 10 (\<lambda>k. Num 1) 5
     \<and> twoSpanUnequal_getBendingMomentEquation scenario_equal_spans 10 5
         = collapsed_getBendingMomentEquation scenario_equal_spans 10 5
     \<and> twoSpanUnequal_getShearForceEquation scenario_equal_spans 10 5
         = collapsed_getShearForceEquation scenario_equal_spans 10 5"
proof -
  have s: "primarySpan scenario_equal_spans = 4" "secondarySpan scenario_equal_spans = 4"
    by (simp_all add: scenario_equal_spans_def)
  have p: "(0::real) < 4" "(0::real) \<le> 5" "(5::real) \<le> 4 + 4" by simp_all
  show ?thesis
    using equal_span_branch_redundant [OF p(1) s p(2,3), of 10 "\<lambda>k. Num 1"] by simp
qed

section \<open>What an equation depends on\<close>




section \<open>The reactions inside the deflection equation\<close>

lemma deflection_reactions_closed_form:
  assumes "0 < L1" and "0 < L2"
  shows "deflection_R1 (Num w) (Num L1) (Num L2)
           = Num (w * L1 * (3 * L2 + 2 * L1) / (2 * (L1 + L2)))"
    and "deflection_R2 (Num w) (Num L1) (Num L2) (deflection_R1 (Num w) (Num L1) (Num L2))
           = Num (w * (L1 + L2) - w * L1 * (3 * L2 + 2 * L1) / (2 * (L1 + L2)))"
  using assms by (simp_all add: deflection_R1_def deflection_R2_def)

text \<open>
  Claim C9. The two-span deflection equation computes \<open>R1 = w L1 (3 L2 + 2 L1) / (2 (L1 + L2))\<close>
  and \<open>R2 = w (L1 + L2) - R1\<close> for itself. For \<open>w > 0\<close> and equal spans \<open>L > 0\<close> its \<open>R1\<close> is
  \<open>5 w L / 4\<close>, the \<open>R1\<close> of \<^verbatim>\<open>calculateReactions\<close> is \<open>3 w L / 8\<close>, and the two differ: the
  deflection equation works from \<open>5 w L / 4\<close> where the bending moment and shear force
  equations work from \<open>3 w L / 8\<close>.
\<close>

theorem deflection_reactions_differ:
  assumes "0 < w" and "0 < L" and "primarySpan b = L" and "secondarySpan b = L"
  shows "deflection_R1 (Num w) (Num L) (Num L) = Num (5 * w * L / 4)
       \<and> R1 (calculateReactions (Num w) (Num L) (Num L)) = Num (3 * w * L / 8)
       \<and> deflection_R1 (Num w) (Num L) (Num L) \<noteq> R1 (calculateReactions (Num w) (Num L) (Num L))
       \<and> twoSpanUnequal_getDeflectionEquation b w floatVal x =
           \<lparr>px = x,
            py = deflection_equal_branch (Num w) (properties_get (material b) ''EI'' / 10000000)
                   (Num (5 * w * L / 4)) (Num (w * (L + L) - 5 * w * L / 4))
                   (Num L) (Num L) (Num x) * 1000 * floatVal ''j2''\<rparr>
       \<and> twoSpanUnequal_getBendingMomentEquation b w x =
           \<lparr>px = x,
            py = moment_equal_branch (Num w) (Num (3 * w * L / 8)) (Num (5 * w * L / 4))
                   (Num L) (Num L) (Num x)\<rparr>
       \<and> twoSpanUnequal_getShearForceEquation b w x =
           \<lparr>px = x,
            py = shear_equal_branch (Num w) (Num (3 * w * L / 8)) (Num (5 * w * L / 4))
                   (Num L) (Num L) (Num x)\<rparr>"
proof (intro conjI)
  show a: "deflection_R1 (Num w) (Num L) (Num L) = Num (5 * w * L / 4)"
    using assms(2) by (simp add: deflection_R1_def field_simps)
  show c: "R1 (calculateReactions (Num w) (Num L) (Num L)) = Num (3 * w * L / 8)"
    by (simp add: calculateReactions_equal_spans [OF assms(2)])
  have "5 * w * L / 4 \<noteq> 3 * w * L / 8"
    using assms(1,2) by (simp add: field_simps)
  then show "deflection_R1 (Num w) (Num L) (Num L)
      \<noteq> R1 (calculateReactions (Num w) (Num L) (Num L))"
    unfolding a c by simp
  show "twoSpanUnequal_getDeflectionEquation b w floatVal x =
           \<lparr>px = x,
            py = deflection_equal_branch (Num w) (properties_get (material b) ''EI'' / 10000000)
                   (Num (5 * w * L / 4)) (Num (w * (L + L) - 5 * w * L / 4))
                   (Num L) (Num L) (Num x) * 1000 * floatVal ''j2''\<rparr>"
    unfolding twoSpanUnequal_getDeflectionEquation_def Let_def assms(3,4) a
    by (simp add: deflection_R2_def)
  show "twoSpanUnequal_getBendingMomentEquation b w x =
           \<lparr>px = x,
            py = moment_equal_branch (Num w) (Num (3 * w * L / 8)) (Num (5 * w * L / 4))
                   (Num L) (Num L) (Num x)\<rparr>"
    unfolding twoSpanUnequal_getBendingMomentEquation_def Let_def assms(3,4)
      calculateReactions_equal_spans [OF assms(2)]
    by simp
  show "twoSpanUnequal_getShearForceEquation b w x =
           \<lparr>px = x,
            py = shear_equal_branch (Num w) (Num (3 * w * L / 8)) (Num (5 * w * L / 4))
                   (Num L) (Num L) (Num x)\<rparr>"
    unfolding twoSpanUnequal_getShearForceEquation_def Let_def assms(3,4)
      calculateReactions_equal_spans [OF assms(2)]
    by simp
qed

theorem deflection_reactions_differ_witness:
  "(0::real) < 10 \<and> (0::real) < 4
     \<and> deflection_R1 (Num 10) (Num 4) (Num 4) = Num 50
     \<and> R1 (calculateReactions (Num 10) (Num 4) (Num 4)) = Num 15
     \<and> deflection_R1 (Num 10) (Num 4) (Num 4) \<noteq> R1 (calculateReactions (Num 10) (Num 4) (Num 4))
     \<and> twoSpanUnequal_getBendingMomentEquation scenario_equal_spans 10 2 =
         \<lparr>px = 2, py = moment_equal_branch (Num 10) (Num 15) (Num 50) (Num 4) (Num 4) (Num 2)\<rparr>"
proof -
  have s: "primarySpan scenario_equal_spans = 4" "secondarySpan scenario_equal_spans = 4"
    by (simp_all add: scenario_equal_spans_def)
  have p: "(0::real) < 10" "(0::real) < 4" by simp_all
  show ?thesis
    using deflection_reactions_differ [OF p s, of "\<lambda>k. Num 1" 2] by simp
qed

section \<open>The sign of the simple-span deflection\<close>




end
